theory Spec2Isabelle
  imports Main
begin

section \<open>Values and errors of the Python program\<close>

text \<open>
  The program in \<^verbatim>\<open>src/app.py\<close> works on the dynamically typed result of
  \<^verbatim>\<open>xmltodict.parse\<close>: nested dictionaries, lists, strings and \<^verbatim>\<open>None\<close>.
  A dictionary is an association list, looked up at its first entry for a key.
\<close>

datatype pyval =
    PNone
  | Str string
  | Dict "(string \<times> pyval) list"
  | List "pyval list"

text \<open>
  The exceptions the code can raise. \<open>GvmError\<close> carries \<^verbatim>\<open>str(e)\<close>, \<open>ValueError\<close> and
  \<open>KeyError\<close> their argument.
\<close>

datatype pyerr =
    GvmError string
  | ValueError string
  | KeyError string
  | TypeError
  | AttributeError
  | IndexError

definition ebind :: "pyerr + 'a \<Rightarrow> ('a \<Rightarrow> pyerr + 'b) \<Rightarrow> pyerr + 'b" where
  "ebind m f = (case m of Inl e \<Rightarrow> Inl e | Inr v \<Rightarrow> f v)"

text \<open>\<^verbatim>\<open>d[k]\<close>: a dictionary raises KeyError on a missing key; a string, a list and
  \<^verbatim>\<open>None\<close> raise TypeError on a string subscript.\<close>

fun py_getitem :: "pyval \<Rightarrow> string \<Rightarrow> pyerr + pyval" where
  "py_getitem (Dict kvs) k = (case map_of kvs k of None \<Rightarrow> Inl (KeyError k) | Some v \<Rightarrow> Inr v)"
| "py_getitem (Str s) k = Inl TypeError"
| "py_getitem (List xs) k = Inl TypeError"
| "py_getitem PNone k = Inl TypeError"

text \<open>\<^verbatim>\<open>d.get(k, default)\<close>: only a dictionary has the method.\<close>

fun py_get :: "pyval \<Rightarrow> string \<Rightarrow> pyval \<Rightarrow> pyerr + pyval" where
  "py_get (Dict kvs) k dflt = (case map_of kvs k of None \<Rightarrow> Inr dflt | Some v \<Rightarrow> Inr v)"
| "py_get (Str s) k dflt = Inl AttributeError"
| "py_get (List xs) k dflt = Inl AttributeError"
| "py_get PNone k dflt = Inl AttributeError"

text \<open>\<^verbatim>\<open>for x in v\<close>: a list yields its elements, a dictionary its keys, a string its
  characters; \<^verbatim>\<open>None\<close> is not iterable.\<close>

fun py_iter :: "pyval \<Rightarrow> pyerr + pyval list" where
  "py_iter (List xs) = Inr xs"
| "py_iter (Dict kvs) = Inr (map (\<lambda>kv. Str (fst kv)) kvs)"
| "py_iter (Str s) = Inr (map (\<lambda>c. Str [c]) s)"
| "py_iter PNone = Inl TypeError"

fun is_substr :: "string \<Rightarrow> string \<Rightarrow> bool" where
  "is_substr k [] = (k = [])"
| "is_substr k (c # cs) = (take (length k) (c # cs) = k \<or> is_substr k cs)"

text \<open>\<^verbatim>\<open>k in v\<close> for a string \<open>k\<close>: key membership in a dictionary, substring test in a
  string, element membership in a list, TypeError on \<^verbatim>\<open>None\<close>.\<close>

fun py_contains :: "string \<Rightarrow> pyval \<Rightarrow> pyerr + bool" where
  "py_contains k (Dict kvs) = Inr (k \<in> set (map fst kvs))"
| "py_contains k (Str s) = Inr (is_substr k s)"
| "py_contains k (List xs) = Inr (Str k \<in> set xs)"
| "py_contains k PNone = Inl TypeError"

fun py_truthy :: "pyval \<Rightarrow> bool" where
  "py_truthy PNone = False"
| "py_truthy (Str s) = (s \<noteq> [])"
| "py_truthy (Dict kvs) = (kvs \<noteq> [])"
| "py_truthy (List xs) = (xs \<noteq> [])"

section \<open>Strings\<close>

text \<open>\<^verbatim>\<open>s.split(sep)\<close> for a one-character separator: the pieces between the
  separators, one more than there are separators; the empty string gives one empty piece.\<close>

fun split_chr :: "char \<Rightarrow> string \<Rightarrow> string list" where
  "split_chr sep [] = [[]]"
| "split_chr sep (c # cs) =
     (if c = sep then [] # split_chr sep cs
      else (case split_chr sep cs of [] \<Rightarrow> [[c]] | p # ps \<Rightarrow> (c # p) # ps))"

text \<open>\<^verbatim>\<open>xs[i]\<close> raises IndexError out of range.\<close>

definition py_index :: "'a list \<Rightarrow> nat \<Rightarrow> pyerr + 'a" where
  "py_index xs i = (if i < length xs then Inr (xs ! i) else Inl IndexError)"

text \<open>\<^verbatim>\<open>v.split(sep)\<close>: only a string has the method.\<close>

fun py_split :: "char \<Rightarrow> pyval \<Rightarrow> pyerr + string list" where
  "py_split sep (Str s) = Inr (split_chr sep s)"
| "py_split sep PNone = Inl AttributeError"
| "py_split sep (Dict kvs) = Inl AttributeError"
| "py_split sep (List xs) = Inl AttributeError"

section \<open>The CVSS vector (\<^verbatim>\<open>process_report\<close>, lines 225 to 236)\<close>

text \<open>
  \<^verbatim>\<open>nvt['severities']['severity']['value'] if 'severities' in nvt and
  'severity' in nvt['severities'] and 'value' in nvt['severities']['severity'] else ''\<close>,
  the conjunction evaluated left to right.
\<close>

definition severity_value :: "pyval \<Rightarrow> pyerr + pyval" where
  "severity_value nvt =
     ebind (py_contains ''severities'' nvt) (\<lambda>b1.
     if \<not> b1 then Inr (Str [])
     else ebind (py_getitem nvt ''severities'') (\<lambda>sevs.
     ebind (py_contains ''severity'' sevs) (\<lambda>b2.
     if \<not> b2 then Inr (Str [])
     else ebind (py_getitem sevs ''severity'') (\<lambda>sev.
     ebind (py_contains ''value'' sev) (\<lambda>b3.
     if \<not> b3 then Inr (Str [])
     else py_getitem sev ''value'')))))"

text \<open>\<^verbatim>\<open>vector_parts = severity_value.split('/')[1:] if severity_value else []\<close>\<close>

definition vector_parts :: "pyval \<Rightarrow> pyerr + string list" where
  "vector_parts sv =
     (if py_truthy sv then ebind (py_split CHR ''/'' sv) (\<lambda>ps. Inr (tl ps)) else Inr [])"

text \<open>\<^verbatim>\<open>(vector_parts + ['N/A'] * 8)[:8]\<close>\<close>

definition pad8 :: "string list \<Rightarrow> string list" where
  "pad8 parts = take 8 (parts @ replicate 8 ''N/A'')"

text \<open>\<^verbatim>\<open>av = av.split(':')[1] if ':' in av else av\<close>\<close>

definition metric_value :: "string \<Rightarrow> pyerr + string" where
  "metric_value tok =
     (if CHR '':'' \<in> set tok then py_index (split_chr CHR '':'' tok) 1 else Inr tok)"

text \<open>
  The unpacking \<^verbatim>\<open>av, ac, pr, ui, s, c, i, a = ...\<close> (a ValueError unless there are
  exactly eight values) and the eight assignments that follow it.
\<close>

definition cvss_metrics :: "string list \<Rightarrow> pyerr + string list" where
  "cvss_metrics parts =
     (case pad8 parts of
        [av, ac, pr, ui, s, c, i, a] \<Rightarrow>
          ebind (metric_value av) (\<lambda>av.
          ebind (metric_value ac) (\<lambda>ac.
          ebind (metric_value pr) (\<lambda>pr.
          ebind (metric_value ui) (\<lambda>ui.
          ebind (metric_value s) (\<lambda>s.
          ebind (metric_value c) (\<lambda>c.
          ebind (metric_value i) (\<lambda>i.
          ebind (metric_value a) (\<lambda>a.
            Inr [av, ac, pr, ui, s, c, i, a]))))))))
      | _ \<Rightarrow> Inl (ValueError ''unpack''))"

text \<open>The eight summary values of a severity value: lines 226 to 236 together.\<close>

definition cvss_decompose :: "pyval \<Rightarrow> pyerr + string list" where
  "cvss_decompose sv = ebind (vector_parts sv) cvss_metrics"

section \<open>The CVE of a finding (lines 215 to 222)\<close>

text \<open>The loop \<^verbatim>\<open>for ref in refs\<close>, with \<^verbatim>\<open>cve = 'N/A'\<close> before it.\<close>

fun cve_loop :: "pyval list \<Rightarrow> pyerr + pyval" where
  "cve_loop [] = Inr (Str ''N/A'')"
| "cve_loop (ref # refs) =
     (case py_get ref ''@type'' PNone of
        Inl e \<Rightarrow> Inl e
      | Inr t \<Rightarrow> if t = Str ''cve'' then py_get ref ''@id'' (Str ''N/A'') else cve_loop refs)"

text \<open>\<^verbatim>\<open>if not isinstance(refs, list): refs = [refs]\<close>\<close>

fun as_list :: "pyval \<Rightarrow> pyval list" where
  "as_list (List xs) = xs"
| "as_list v = [v]"

definition extract_cve :: "pyval \<Rightarrow> pyerr + pyval" where
  "extract_cve nvt =
     ebind (py_get nvt ''refs'' (Dict [])) (\<lambda>r.
     ebind (py_get r ''ref'' (List [])) (\<lambda>refs.
     cve_loop (as_list refs)))"

section \<open>\<^verbatim>\<open>process_report\<close>\<close>

datatype log_entry = LogDebug string | LogError string

definition sq :: char where "sq = CHR 0x27"
definition dq :: char where "dq = CHR 0x22"

text \<open>\<^verbatim>\<open>str(e)\<close> of a KeyError is the key in single quotes.\<close>

definition key_error_msg :: "string \<Rightarrow> string" where
  "key_error_msg k = ''Key error: '' @ [sq] @ k @ [sq]"

text \<open>A chain of subscripts \<^verbatim>\<open>data[k1][k2]...\<close>.\<close>

fun py_getpath :: "pyval \<Rightarrow> string list \<Rightarrow> pyerr + pyval" where
  "py_getpath v [] = Inr v"
| "py_getpath v (k # ks) =
     (case py_getitem v k of Inl e \<Rightarrow> Inl e | Inr v' \<Rightarrow> py_getpath v' ks)"

definition findings_path :: "string list" where
  "findings_path = [''get_reports_response'', ''report'', ''report'', ''results'', ''result'']"

text \<open>The body of the loop over the findings: the detail and the summary record of one.\<close>

definition process_result :: "pyval \<Rightarrow> pyerr + (pyval \<times> pyval)" where
  "process_result result =
     ebind (py_getitem result ''host'') (\<lambda>host.
     ebind (py_getitem host ''#text'') (\<lambda>endpoint.
     ebind (py_getitem result ''nvt'') (\<lambda>nvt.
     ebind (extract_cve nvt) (\<lambda>cve.
     ebind (py_get nvt ''cvss_base'' (Str ''N/A'')) (\<lambda>score.
     ebind (severity_value nvt) (\<lambda>sv.
     ebind (cvss_decompose sv) (\<lambda>ms.
     ebind (py_getitem result ''@id'') (\<lambda>rid.
     ebind (py_getitem result ''name'') (\<lambda>rname.
     ebind (py_getitem nvt ''cvss_base'') (\<lambda>dscore.
     ebind (py_getitem result ''creation_time'') (\<lambda>ctime.
     ebind (py_getitem result ''modification_time'') (\<lambda>mtime.
       Inr (Dict [(''id'', rid), (''name'', rname), (''score'', dscore),
                  (''creation_time'', ctime), (''modification_time'', mtime)],
            Dict ([(''Endpoint'', endpoint), (''CVE'', cve), (''Score'', score)]
                  @ zip [''AV'', ''AC'', ''PR'', ''UI'', ''S'', ''C'', ''I'', ''A'']
                        (map Str ms)))))))))))))))"

fun process_results ::
  "pyval list \<Rightarrow> pyval list \<Rightarrow> pyval list \<Rightarrow> pyerr + (pyval list \<times> pyval list)" where
  "process_results [] detailed summary = Inr (detailed, summary)"
| "process_results (r # rs) detailed summary =
     (case process_result r of
        Inl e \<Rightarrow> Inl e
      | Inr (d, s) \<Rightarrow> process_results rs (detailed @ [d]) (summary @ [s]))"

text \<open>
  \<^verbatim>\<open>process_report\<close> returns its result (or the exception it raises) and the lines it
  logs. Only a KeyError of the subscript chain is caught.
\<close>

definition process_report :: "pyval \<Rightarrow> pyval \<Rightarrow> pyval \<Rightarrow> (pyerr + pyval) \<times> log_entry list" where
  "process_report data scan_name targets =
     (case py_getpath data findings_path of
        Inl (KeyError k) \<Rightarrow> (Inr PNone, [LogError (key_error_msg k)])
      | Inl e \<Rightarrow> (Inl e, [])
      | Inr results \<Rightarrow>
          (ebind (py_iter results) (\<lambda>rs.
           ebind (process_results rs [] []) (\<lambda>(detailed, summary).
             Inr (Dict [(''scan_name'', scan_name), (''targets'', targets),
                        (''result_details'', List detailed),
                        (''result_summary'', List summary)]))), []))"

section \<open>Responses of the remote service\<close>

text \<open>
  An lxml element: tag, attributes, the text before its first child (\<^verbatim>\<open>None\<close> when
  there is none) and children.
\<close>

datatype elem = Elem (el_tag: string) (el_attrib: "(string \<times> string) list")
  (el_text: "string option") (el_children: "elem list")

text \<open>\<^verbatim>\<open>e.get(name)\<close>, \<^verbatim>\<open>e.find(tag)\<close>, \<^verbatim>\<open>e.findall(tag)\<close> over the children and
  \<^verbatim>\<open>e.find('.//tag')\<close> over all descendants in document order.\<close>

definition get_attr :: "string \<Rightarrow> elem \<Rightarrow> string option" where
  "get_attr name e = map_of (el_attrib e) name"

definition find_child :: "string \<Rightarrow> elem \<Rightarrow> elem option" where
  "find_child t e = List.find (\<lambda>c. el_tag c = t) (el_children e)"

definition findall :: "string \<Rightarrow> elem \<Rightarrow> elem list" where
  "findall t e = filter (\<lambda>c. el_tag c = t) (el_children e)"

fun descendants :: "elem \<Rightarrow> elem list" where
  "descendants (Elem t a x cs) = concat (map (\<lambda>c. c # descendants c) cs)"

definition find_desc :: "string \<Rightarrow> elem \<Rightarrow> elem option" where
  "find_desc t e = List.find (\<lambda>d. el_tag d = t) (descendants e)"

text \<open>\<^verbatim>\<open>resp.find('.//tag').text if resp.find('.//tag') is not None else resp.get('id')\<close>\<close>

definition resp_id :: "string \<Rightarrow> elem \<Rightarrow> string option" where
  "resp_id t resp = (case find_desc t resp of Some d \<Rightarrow> el_text d | None \<Rightarrow> get_attr ''id'' resp)"

section \<open>The remote protocol client and the session\<close>

text \<open>
  The python-gvm client is outside the repository. Its calls are parameters of the
  model: each takes the state \<open>'r\<close> of the remote side, returns a response or raises, and
  leaves a new state.
\<close>

record 'r gmp =
  gmp_connect :: "'r \<Rightarrow> (pyerr + unit) \<times> 'r"
  gmp_authenticate :: "string \<Rightarrow> string \<Rightarrow> 'r \<Rightarrow> (pyerr + elem) \<times> 'r"
  gmp_get_targets :: "'r \<Rightarrow> (pyerr + elem) \<times> 'r"
  gmp_delete_target :: "string option \<Rightarrow> 'r \<Rightarrow> (pyerr + elem) \<times> 'r"
  gmp_create_target :: "string \<Rightarrow> pyval \<Rightarrow> string \<Rightarrow> 'r \<Rightarrow> (pyerr + elem) \<times> 'r"
  gmp_get_configs :: "'r \<Rightarrow> (pyerr + elem) \<times> 'r"
  gmp_get_scanners :: "'r \<Rightarrow> (pyerr + elem) \<times> 'r"
  gmp_create_task ::
    "string \<Rightarrow> string option \<Rightarrow> string option \<Rightarrow> string option \<Rightarrow> 'r \<Rightarrow> (pyerr + elem) \<times> 'r"
  gmp_start_task :: "string option \<Rightarrow> 'r \<Rightarrow> (pyerr + elem) \<times> 'r"
  gmp_get_report :: "string \<Rightarrow> string \<Rightarrow> 'r \<Rightarrow> (pyerr + elem) \<times> 'r"

text \<open>What one request sees: the remote side, whether the socket is connected, the log.\<close>

record 'r world =
  remote :: 'r
  connected :: bool
  log :: "log_entry list"

definition call :: "('r \<Rightarrow> (pyerr + 'a) \<times> 'r) \<Rightarrow> 'r world \<Rightarrow> (pyerr + 'a) \<times> 'r world" where
  "call f w = (case f (remote w) of (res, r') \<Rightarrow> (res, w\<lparr>remote := r'\<rparr>))"

definition sbind ::
  "('w \<Rightarrow> (pyerr + 'a) \<times> 'w) \<Rightarrow> ('a \<Rightarrow> 'w \<Rightarrow> (pyerr + 'b) \<times> 'w) \<Rightarrow> 'w \<Rightarrow> (pyerr + 'b) \<times> 'w" where
  "sbind m f w = (case m w of (Inl e, w') \<Rightarrow> (Inl e, w') | (Inr v, w') \<Rightarrow> f v w')"

definition add_log :: "log_entry \<Rightarrow> 'r world \<Rightarrow> 'r world" where
  "add_log l w = w\<lparr>log := log w @ [l]\<rparr>"

definition disconnect :: "'r world \<Rightarrow> 'r world" where
  "disconnect w = w\<lparr>connected := False\<rparr>"

text \<open>
  \<^verbatim>\<open>with Gmp(connection, transform=transform) as gmp: body\<close>: entering connects (and may
  raise), leaving disconnects, whether the body returns or raises.
\<close>

definition with_gmp ::
  "'r gmp \<Rightarrow> ('r world \<Rightarrow> (pyerr + 'a) \<times> 'r world) \<Rightarrow> 'r world \<Rightarrow> (pyerr + 'a) \<times> 'r world" where
  "with_gmp g body w =
     (case call (gmp_connect g) w of
        (Inl e, w1) \<Rightarrow> (Inl e, w1)
      | (Inr u, w1) \<Rightarrow>
          (case body (w1\<lparr>connected := True\<rparr>) of (res, w2) \<Rightarrow> (res, disconnect w2)))"

text \<open>\<^verbatim>\<open>except GvmError as e: return {"error": str(e)}\<close>; any other exception goes on.\<close>

fun except_GvmError :: "pyerr + pyval \<Rightarrow> pyerr + pyval" where
  "except_GvmError (Inl (GvmError m)) = Inr (Dict [(''error'', Str m)])"
| "except_GvmError r = r"

section \<open>\<^verbatim>\<open>delete_target_if_exists\<close>\<close>

definition opt_str :: "string option \<Rightarrow> string" where
  "opt_str x = (case x of None \<Rightarrow> ''None'' | Some s \<Rightarrow> s)"

fun delete_loop ::
  "'r gmp \<Rightarrow> string \<Rightarrow> elem list \<Rightarrow> 'r world \<Rightarrow> (pyerr + bool) \<times> 'r world" where
  "delete_loop g target_name [] w = (Inr False, w)"
| "delete_loop g target_name (t # ts) w =
     (case find_child ''name'' t of
        None \<Rightarrow> (Inl AttributeError, w)
      | Some n \<Rightarrow>
          if el_text n = Some target_name then
            (let target_id = get_attr ''id'' t in
             case call (gmp_delete_target g target_id) w of
               (Inl e, w') \<Rightarrow> (Inl e, w')
             | (Inr r, w') \<Rightarrow>
                 (Inr True,
                  add_log (LogDebug (''Deleted existing target: '' @ target_name
                                     @ '' with ID: '' @ opt_str target_id)) w'))
          else delete_loop g target_name ts w)"

definition delete_target_if_exists ::
  "'r gmp \<Rightarrow> string \<Rightarrow> 'r world \<Rightarrow> (pyerr + bool) \<times> 'r world" where
  "delete_target_if_exists g target_name w =
     (case sbind (call (gmp_get_targets g))
                 (\<lambda>targets_resp. delete_loop g target_name (findall ''target'' targets_resp)) w of
        (Inl (GvmError m), w') \<Rightarrow> (Inr False, add_log (LogError (''Error deleting target: '' @ m)) w')
      | (res, w') \<Rightarrow> (res, w'))"

section \<open>\<^verbatim>\<open>get_default_config_id\<close> and \<^verbatim>\<open>get_default_scanner_id\<close>\<close>

text \<open>
  The two functions run the same loop, over \<^verbatim>\<open>config\<close> and \<^verbatim>\<open>scanner\<close> elements:
  the id of the first element whose name text equals the expected name, and the
  ValueError after the loop.
\<close>

fun name_loop :: "string \<Rightarrow> string \<Rightarrow> elem list \<Rightarrow> pyerr + string option" where
  "name_loop expected msg [] = Inl (ValueError msg)"
| "name_loop expected msg (c # cs) =
     (case find_child ''name'' c of
        None \<Rightarrow> Inl AttributeError
      | Some n \<Rightarrow>
          if el_text n = Some expected then Inr (get_attr ''id'' c)
          else name_loop expected msg cs)"

definition config_not_found :: string where
  "config_not_found = ''Default config '' @ [dq] @ ''Full and fast'' @ [dq] @ '' not found''"

definition scanner_not_found :: string where
  "scanner_not_found = ''Default scanner '' @ [dq] @ ''OpenVAS Default'' @ [dq] @ '' not found''"

definition get_default_config_id ::
  "'r gmp \<Rightarrow> 'r world \<Rightarrow> (pyerr + string option) \<times> 'r world" where
  "get_default_config_id g =
     sbind (call (gmp_get_configs g))
       (\<lambda>configs w. (name_loop ''Full and fast'' config_not_found (findall ''config'' configs), w))"

definition get_default_scanner_id ::
  "'r gmp \<Rightarrow> 'r world \<Rightarrow> (pyerr + string option) \<times> 'r world" where
  "get_default_scanner_id g =
     sbind (call (gmp_get_scanners g))
       (\<lambda>scanners w. (name_loop ''OpenVAS Default'' scanner_not_found (findall ''scanner'' scanners), w))"

section \<open>\<^verbatim>\<open>trigger_scan\<close>\<close>

definition opt_val :: "string option \<Rightarrow> pyval" where
  "opt_val x = (case x of None \<Rightarrow> PNone | Some s \<Rightarrow> Str s)"

text \<open>The body of the \<^verbatim>\<open>with\<close> statement, lines 134 to 149.\<close>

definition scan_steps ::
  "'r gmp \<Rightarrow> string \<Rightarrow> pyval \<Rightarrow> string \<Rightarrow> 'r world \<Rightarrow> (pyerr + pyval) \<times> 'r world" where
  "scan_steps g scan_name targets port_list_id =
     sbind (call (gmp_authenticate g ''admin'' ''admin'')) (\<lambda>auth.
     sbind (delete_target_if_exists g scan_name) (\<lambda>deleted.
     sbind (call (gmp_create_target g scan_name targets port_list_id)) (\<lambda>target_resp.
     sbind (get_default_config_id g) (\<lambda>config_id.
     sbind (get_default_scanner_id g) (\<lambda>scanner_id.
     sbind (call (gmp_create_task g scan_name config_id (resp_id ''id'' target_resp) scanner_id))
       (\<lambda>task_resp.
     sbind (call (gmp_start_task g (resp_id ''id'' task_resp))) (\<lambda>start_task_resp.
       Pair (Inr (Dict [(''message'', Str ''Scan started''), (''scan_name'', Str scan_name),
                        (''targets'', targets),
                        (''scan_id'', opt_val (resp_id ''report_id'' start_task_resp))])))))))))"

text \<open>\<^verbatim>\<open>try: with ...: body  except GvmError ...  finally: connection.disconnect()\<close>\<close>

definition trigger_scan ::
  "'r gmp \<Rightarrow> string \<Rightarrow> pyval \<Rightarrow> string \<Rightarrow> 'r world \<Rightarrow> (pyerr + pyval) \<times> 'r world" where
  "trigger_scan g scan_name targets port_list_id w =
     (case with_gmp g (scan_steps g scan_name targets port_list_id) w of
        (res, w') \<Rightarrow> (except_GvmError res, disconnect w'))"

section \<open>\<^verbatim>\<open>retrieve_results\<close> and \<^verbatim>\<open>get_results\<close>\<close>

definition filter_str :: string where
  "filter_str = ''levels=hml rows=100 min_qod=70 first=1 sort-reverse=severity''"

text \<open>Dictionaries and lists are unhashable: adding one to a set raises TypeError.\<close>

fun hashable :: "pyval \<Rightarrow> bool" where
  "hashable (Dict kvs) = False"
| "hashable (List xs) = False"
| "hashable v = True"

text \<open>The generator \<^verbatim>\<open>result['host']['#text'] for result in ...\<close>, consumed by \<^verbatim>\<open>set\<close>.\<close>

fun host_texts :: "pyval list \<Rightarrow> pyerr + pyval list" where
  "host_texts [] = Inr []"
| "host_texts (r # rs) =
     (case ebind (py_getitem r ''host'') (\<lambda>h. py_getitem h ''#text'') of
        Inl e \<Rightarrow> Inl e
      | Inr t \<Rightarrow>
          if hashable t then (case host_texts rs of Inl e \<Rightarrow> Inl e | Inr ts \<Rightarrow> Inr (t # ts))
          else Inl TypeError)"

text \<open>
  Lines 178 and 179. The order in which Python lists a set is not fixed; the model lists
  the hosts in the order of their first finding.
\<close>

definition report_scan_name :: "pyval \<Rightarrow> pyerr + pyval" where
  "report_scan_name report_dict =
     ebind (py_get report_dict ''get_reports_response'' (Dict [])) (\<lambda>a.
     ebind (py_get a ''report'' (Dict [])) (\<lambda>b.
     ebind (py_get b ''task'' (Dict [])) (\<lambda>c.
     py_get c ''name'' (Str ''N/A''))))"

definition report_targets :: "pyval \<Rightarrow> pyerr + pyval" where
  "report_targets report_dict =
     ebind (py_get report_dict ''get_reports_response'' (Dict [])) (\<lambda>a.
     ebind (py_get a ''report'' (Dict [])) (\<lambda>b.
     ebind (py_get b ''report'' (Dict [])) (\<lambda>c.
     ebind (py_get c ''results'' (Dict [])) (\<lambda>d.
     ebind (py_get d ''result'' (List [])) (\<lambda>rs.
     ebind (py_iter rs) (\<lambda>results.
     ebind (host_texts results) (\<lambda>ts. Inr (List (remdups ts)))))))))"

text \<open>
  The body of the \<^verbatim>\<open>with\<close> statement, lines 171 to 183. \<open>parse\<close> stands for
  \<^verbatim>\<open>xmltodict.parse(etree.tostring(...))\<close>, a library outside the repository.
\<close>

definition report_steps ::
  "'r gmp \<Rightarrow> (elem \<Rightarrow> pyval) \<Rightarrow> string \<Rightarrow> 'r world \<Rightarrow> (pyerr + pyval) \<times> 'r world" where
  "report_steps g parse scan_id =
     sbind (call (gmp_authenticate g ''admin'' ''admin'')) (\<lambda>auth.
     sbind (call (gmp_get_report g scan_id filter_str)) (\<lambda>report_resp w.
       let report_dict = parse report_resp in
       case report_scan_name report_dict of
         Inl e \<Rightarrow> (Inl e, w)
       | Inr scan_name \<Rightarrow>
           (case report_targets report_dict of
              Inl e \<Rightarrow> (Inl e, w)
            | Inr targets \<Rightarrow>
                (case process_report report_dict scan_name targets of
                   (res, lines) \<Rightarrow> (res, w\<lparr>log := log w @ lines\<rparr>)))))"

definition retrieve_results ::
  "'r gmp \<Rightarrow> (elem \<Rightarrow> pyval) \<Rightarrow> string \<Rightarrow> 'r world \<Rightarrow> (pyerr + pyval) \<times> 'r world" where
  "retrieve_results g parse scan_id w =
     (case with_gmp g (report_steps g parse scan_id) w of
        (res, w') \<Rightarrow> (except_GvmError res, disconnect w'))"

text \<open>
  The route \<^verbatim>\<open>/get_results/<scan_id>\<close>: \<^verbatim>\<open>return jsonify(results)\<close>, a body with the
  default status 200. An exception of \<^verbatim>\<open>retrieve_results\<close> leaves the route.
\<close>

definition get_results ::
  "'r gmp \<Rightarrow> (elem \<Rightarrow> pyval) \<Rightarrow> string \<Rightarrow> 'r world \<Rightarrow> (pyerr + pyval \<times> nat) \<times> 'r world" where
  "get_results g parse scan_id w =
     (case retrieve_results g parse scan_id w of
        (Inl e, w') \<Rightarrow> (Inl e, w')
      | (Inr results, w') \<Rightarrow> (Inr (results, 200), w'))"

section \<open>A remote scan-management service\<close>

text \<open>
  Modelled from the spec: the scan-management service, which is outside the repository
  (spec sections 3 and 6). It holds targets, tasks, scan configurations, scanners and
  reports; each capability does what its name says: creating adds one entity under a
  fresh id, \<open>deleteTarget\<close> removes the target of that id, listing changes nothing.
  What becomes of the tasks bound to a deleted target the spec leaves to the service
  (section 4.1), so \<open>deleteTarget\<close> is modelled twice: keeping those tasks, and
  removing them with the target.
\<close>

record target =
  tg_id :: string
  tg_name :: string
  tg_hosts :: pyval
  tg_port_list :: string

record task =
  tk_id :: string
  tk_name :: string
  tk_config :: string
  tk_target :: string
  tk_scanner :: string

record service =
  sv_targets :: "target list"
  sv_tasks :: "task list"
  sv_configs :: "(string \<times> string) list"
  sv_scanners :: "(string \<times> string) list"
  sv_reports :: "(string \<times> elem) list"
  sv_next :: nat

definition fresh_id :: "nat \<Rightarrow> string" where
  "fresh_id n = replicate (Suc n) CHR ''i''"

definition ok_resp :: "string \<Rightarrow> (string \<times> string) list \<Rightarrow> elem list \<Rightarrow> elem" where
  "ok_resp name attrs cs = Elem name ((''status'', ''200'') # attrs) None cs"

definition named_elem :: "string \<Rightarrow> string \<Rightarrow> string \<Rightarrow> elem" where
  "named_elem kind ident name = Elem kind [(''id'', ident)] None [Elem ''name'' [] (Some name) []]"

definition target_elem :: "target \<Rightarrow> elem" where
  "target_elem t = named_elem ''target'' (tg_id t) (tg_name t)"

definition svc_get_targets :: "service \<Rightarrow> (pyerr + elem) \<times> service" where
  "svc_get_targets s = (Inr (ok_resp ''get_targets_response'' [] (map target_elem (sv_targets s))), s)"

text \<open>Modelled from the spec: \<open>deleteTarget(id)\<close> on a service that keeps the tasks of a
  deleted target: it removes the target of that id and leaves the tasks as they are.\<close>

definition svc_delete_target :: "string option \<Rightarrow> service \<Rightarrow> (pyerr + elem) \<times> service" where
  "svc_delete_target target_id s =
     (case target_id of
        None \<Rightarrow> (Inl (GvmError ''delete_target requires a target_id argument''), s)
      | Some i \<Rightarrow>
          if i \<in> set (map tg_id (sv_targets s))
          then (Inr (ok_resp ''delete_target_response'' [] []),
                s\<lparr>sv_targets := filter (\<lambda>t. tg_id t \<noteq> i) (sv_targets s)\<rparr>)
          else (Inl (GvmError ''Failed to find target''), s))"

definition svc_create_target ::
  "string \<Rightarrow> pyval \<Rightarrow> string \<Rightarrow> service \<Rightarrow> (pyerr + elem) \<times> service" where
  "svc_create_target name hosts port_list_id s =
     (Inr (ok_resp ''create_target_response'' [(''id'', fresh_id (sv_next s))] []),
      s\<lparr>sv_targets := sv_targets s
            @ [\<lparr>tg_id = fresh_id (sv_next s), tg_name = name, tg_hosts = hosts,
                tg_port_list = port_list_id\<rparr>],
        sv_next := Suc (sv_next s)\<rparr>)"

definition svc_get_configs :: "service \<Rightarrow> (pyerr + elem) \<times> service" where
  "svc_get_configs s =
     (Inr (ok_resp ''get_configs_response'' []
             (map (\<lambda>c. named_elem ''config'' (fst c) (snd c)) (sv_configs s))), s)"

definition svc_get_scanners :: "service \<Rightarrow> (pyerr + elem) \<times> service" where
  "svc_get_scanners s =
     (Inr (ok_resp ''get_scanners_response'' []
             (map (\<lambda>c. named_elem ''scanner'' (fst c) (snd c)) (sv_scanners s))), s)"


text \<open>Modelled from the spec: \<open>createTask(name, configId, targetId, scannerId) -> id\<close> adds
  one task under a fresh id.\<close>

definition svc_create_task ::
  "string \<Rightarrow> string option \<Rightarrow> string option \<Rightarrow> string option \<Rightarrow> service
     \<Rightarrow> (pyerr + elem) \<times> service" where
  "svc_create_task name config_id target_id scanner_id s =
     (case (config_id, target_id, scanner_id) of
        (Some c, Some t, Some n) \<Rightarrow>
          (Inr (ok_resp ''create_task_response'' [(''id'', fresh_id (sv_next s))] []),
           s\<lparr>sv_tasks := sv_tasks s
                 @ [\<lparr>tk_id = fresh_id (sv_next s), tk_name = name, tk_config = c,
                     tk_target = t, tk_scanner = n\<rparr>],
             sv_next := Suc (sv_next s)\<rparr>)
      | _ \<Rightarrow> (Inl (GvmError ''create_task requires its arguments''), s))"

definition svc_start_task :: "string option \<Rightarrow> service \<Rightarrow> (pyerr + elem) \<times> service" where
  "svc_start_task task_id s =
     (case task_id of
        None \<Rightarrow> (Inl (GvmError ''start_task requires a task_id argument''), s)
      | Some i \<Rightarrow>
          if i \<in> set (map tk_id (sv_tasks s))
          then (Inr (ok_resp ''start_task_response'' []
                       [Elem ''report_id'' [] (Some (fresh_id (sv_next s))) []]),
                s\<lparr>sv_next := Suc (sv_next s)\<rparr>)
          else (Inl (GvmError ''Failed to find task''), s))"

definition svc_get_report :: "string \<Rightarrow> string \<Rightarrow> service \<Rightarrow> (pyerr + elem) \<times> service" where
  "svc_get_report report_id flt s =
     (case map_of (sv_reports s) report_id of
        None \<Rightarrow> (Inl (GvmError ''Failed to find report''), s)
      | Some r \<Rightarrow> (Inr r, s))"

text \<open>Modelled from the spec: the client of that service, one call per capability of
  spec section 6; connecting and authenticating always succeed. \<open>svc\<close> is the client of
  a service that keeps the tasks of a deleted target, \<open>svc_cascade\<close> of one that removes
  them.\<close>

definition svc :: "service gmp" where
  "svc = \<lparr>gmp_connect = (\<lambda>s. (Inr (), s)),
          gmp_authenticate = (\<lambda>u p s. (Inr (ok_resp ''authenticate_response'' [] []), s)),
          gmp_get_targets = svc_get_targets,
          gmp_delete_target = svc_delete_target,
          gmp_create_target = svc_create_target,
          gmp_get_configs = svc_get_configs,
          gmp_get_scanners = svc_get_scanners,
          gmp_create_task = svc_create_task,
          gmp_start_task = svc_start_task,
          gmp_get_report = svc_get_report\<rparr>"


text \<open>A request starts disconnected, with an empty log.\<close>

definition start :: "'r \<Rightarrow> 'r world" where
  "start r = \<lparr>remote = r, connected = False, log = []\<rparr>"



text \<open>A service with the two default entities and nothing else.\<close>

definition svc0 :: service where
  "svc0 = \<lparr>sv_targets = [], sv_tasks = [],
           sv_configs = [(''c1'', ''Full and fast'')],
           sv_scanners = [(''s1'', ''OpenVAS Default'')],
           sv_reports = [], sv_next = 0\<rparr>"

section \<open>Notions used in the statements\<close>

text \<open>The entire substring after the first colon of a token.\<close>

definition after_first_colon :: "string \<Rightarrow> string" where
  "after_first_colon tok = tl (dropWhile (\<lambda>c. c \<noteq> CHR '':'') tok)"

text \<open>The part of a token between its first colon and its second one (or its end).\<close>

definition metric_text :: "string \<Rightarrow> string" where
  "metric_text tok =
     (if CHR '':'' \<in> set tok then takeWhile (\<lambda>c. c \<noteq> CHR '':'') (after_first_colon tok)
      else tok)"

text \<open>A reference entry that is an object of type \<open>cve\<close>, and the id such an entry gives.\<close>

fun cve_typed :: "pyval \<Rightarrow> bool" where
  "cve_typed (Dict kvs) = (map_of kvs ''@type'' = Some (Str ''cve''))"
| "cve_typed v = False"

fun ref_id :: "pyval \<Rightarrow> pyval" where
  "ref_id (Dict kvs) = (case map_of kvs ''@id'' of None \<Rightarrow> Str ''N/A'' | Some v \<Rightarrow> v)"
| "ref_id v = Str ''N/A''"

fun is_dict :: "pyval \<Rightarrow> bool" where
  "is_dict (Dict kvs) = True"
| "is_dict v = False"

text \<open>
  A path of keys is structurally absent from a value: going down the path through
  dictionaries, some key of the path is missing from the dictionary reached.
\<close>

fun key_missing :: "string list \<Rightarrow> pyval \<Rightarrow> bool" where
  "key_missing [] v = False"
| "key_missing (k # ks) (Dict kvs) =
     (case map_of kvs k of None \<Rightarrow> True | Some v \<Rightarrow> key_missing ks v)"
| "key_missing (k # ks) v = False"

text \<open>An entity element whose <name> child has exactly the expected text.\<close>

definition has_name :: "string \<Rightarrow> elem \<Rightarrow> bool" where
  "has_name expected c =
     (case find_child ''name'' c of None \<Rightarrow> False | Some n \<Rightarrow> el_text n = Some expected)"

definition has_name_child :: "elem \<Rightarrow> bool" where
  "has_name_child c = (case find_child ''name'' c of None \<Rightarrow> False | Some n \<Rightarrow> True)"

text \<open>The shapes of the body of a response: \<^verbatim>\<open>{"error": message}\<close> and the report
  object that \<^verbatim>\<open>process_report\<close> builds.\<close>

fun is_error_object :: "pyval \<Rightarrow> bool" where
  "is_error_object (Dict [(k, Str m)]) = (k = ''error'')"
| "is_error_object v = False"

fun is_report_object :: "pyval \<Rightarrow> bool" where
  "is_report_object (Dict kvs) =
     (map fst kvs = [''scan_name'', ''targets'', ''result_details'', ''result_summary''])"
| "is_report_object v = False"








text \<open>What the service keeps of a target of the given name when the program asks it to
  delete the first one.\<close>

definition del_named :: "string \<Rightarrow> service \<Rightarrow> service" where
  "del_named name s =
     (case List.find (\<lambda>t. tg_name t = name) (sv_targets s) of
        None \<Rightarrow> s
      | Some t \<Rightarrow> s\<lparr>sv_targets := filter (\<lambda>x. tg_id x \<noteq> tg_id t) (sv_targets s)\<rparr>)"


text \<open>A report as \<^verbatim>\<open>xmltodict\<close> gives it when the inner report has no <results>
  element, and a service that holds it.\<close>

definition report_without_results :: pyval where
  "report_without_results =
     Dict [(''get_reports_response'',
            Dict [(''@status'', Str ''200''),
                  (''report'', Dict [(''@id'', Str ''r1''),
                                     (''report'', Dict [(''@id'', Str ''r1'')])])])]"

definition svc1 :: service where
  "svc1 = svc0\<lparr>sv_reports :=
            [(''r1'', Elem ''get_reports_response'' [(''status'', ''200'')] None
                       [Elem ''report'' [(''id'', ''r1'')] None
                          [Elem ''report'' [(''id'', ''r1'')] None []]])]\<rparr>"


section \<open>Splitting strings\<close>

lemma split_chr_nonempty: "split_chr sep s \<noteq> []"
  by (induction s) (simp_all split: list.splits)

lemma split_chr_Cons:
  "split_chr sep (c # cs) =
     (if c = sep then [] # split_chr sep cs
      else (c # hd (split_chr sep cs)) # tl (split_chr sep cs))"
  using split_chr_nonempty [of sep cs] by (cases "split_chr sep cs") simp_all

lemma hd_split_chr: "hd (split_chr sep s) = takeWhile (\<lambda>c. c \<noteq> sep) s"
  by (induction s) (simp_all add: split_chr_Cons del: split_chr.simps(2))

lemma tl_split_chr:
  "tl (split_chr sep s) =
     (case dropWhile (\<lambda>c. c \<noteq> sep) s of [] \<Rightarrow> [] | x # r \<Rightarrow> split_chr sep r)"
  by (induction s) (simp_all add: split_chr_Cons del: split_chr.simps(2))

lemma dropWhile_sep: "sep \<in> set s \<Longrightarrow> \<exists>r. dropWhile (\<lambda>c. c \<noteq> sep) s = sep # r"
  by (induction s) auto

lemma split_chr_second:
  assumes "sep \<in> set s"
  shows "py_index (split_chr sep s) (Suc 0)
           = Inr (takeWhile (\<lambda>c. c \<noteq> sep) (tl (dropWhile (\<lambda>c. c \<noteq> sep) s)))"
proof -
  from dropWhile_sep [OF assms] obtain r where r: "dropWhile (\<lambda>c. c \<noteq> sep) s = sep # r" ..
  have t: "tl (split_chr sep s) = split_chr sep r"
    by (simp add: tl_split_chr r)
  obtain p where p: "split_chr sep s = p # split_chr sep r"
    using t split_chr_nonempty [of sep s] by (cases "split_chr sep s") simp_all
  obtain q qs where q: "split_chr sep r = q # qs"
    using split_chr_nonempty [of sep r] by (cases "split_chr sep r") simp_all
  have "q = hd (split_chr sep r)" by (simp add: q)
  then have q': "q = takeWhile (\<lambda>c. c \<noteq> sep) r" by (simp only: hd_split_chr)
  have "py_index (split_chr sep s) (Suc 0) = Inr q"
    by (simp add: py_index_def p q)
  then show ?thesis by (simp add: q' r)
qed

lemma count_one_after:
  "count_list s sep = Suc 0 \<Longrightarrow> sep \<notin> set (tl (dropWhile (\<lambda>c. c \<noteq> sep) s))"
  by (induction s) (auto simp: count_list_0_iff split: if_splits)

section \<open>The CVSS vector\<close>

lemma metric_value_eq: "metric_value tok = Inr (metric_text tok)"
  by (simp add: metric_value_def metric_text_def after_first_colon_def split_chr_second)

lemma length_pad8: "length (pad8 parts) = 8"
  by (simp add: pad8_def)

lemma list8:
  assumes "length xs = 8"
  obtains a b c d e f g h where "xs = [a, b, c, d, e, f, g, h]"
proof -
  from assms have "\<exists>a b c d e f g h. xs = [a, b, c, d, e, f, g, h]"
    by (clarsimp simp add: eval_nat_numeral length_Suc_conv)
  then show thesis using that by (elim exE)
qed

lemma cvss_metrics_eq: "cvss_metrics parts = Inr (map metric_text (pad8 parts))"
proof -
  obtain a b c d e f g h where p: "pad8 parts = [a, b, c, d, e, f, g, h]"
    using list8 [OF length_pad8] .
  show ?thesis
    by (simp add: cvss_metrics_def p ebind_def metric_value_eq)
qed

lemma pad8_short:
  "length parts \<le> 8 \<Longrightarrow> pad8 parts = parts @ replicate (8 - length parts) ''N/A''"
  by (simp add: pad8_def)

lemma pad8_take: "pad8 parts = take 8 parts @ replicate (8 - length parts) ''N/A''"
  by (simp add: pad8_def)

lemma metric_text_NA: "metric_text ''N/A'' = ''N/A''"
  by (simp add: metric_text_def)

lemma vector_parts_Str: "vector_parts (Str s) = Inr (tl (split_chr CHR ''/'' s))"
  by (simp add: vector_parts_def ebind_def)

lemma cvss_decompose_Str:
  "cvss_decompose (Str s) = Inr (map metric_text (pad8 (tl (split_chr CHR ''/'' s))))"
  by (simp add: cvss_decompose_def vector_parts_Str ebind_def cvss_metrics_eq)

text \<open>
  C3. For every severity string the vector is split on \<open>/\<close>, its first piece is
  dropped, at most the next eight pieces are kept in order and the eight positions are
  filled up with \<open>N/A\<close>; each position then goes through the colon rule. The empty string
  gives \<open>N/A\<close> eight times, and \<open>k < 8\<close> pieces after the prefix give their \<open>k\<close> values
  followed by \<open>8 - k\<close> times \<open>N/A\<close>.
\<close>

theorem cvss_decomposition:
  "vector_parts (Str s) = Inr (tl (split_chr CHR ''/'' s))
   \<and> pad8 (tl (split_chr CHR ''/'' s))
       = take 8 (tl (split_chr CHR ''/'' s))
         @ replicate (8 - length (tl (split_chr CHR ''/'' s))) ''N/A''
   \<and> (\<exists>vs. cvss_decompose (Str s) = Inr vs
         \<and> map Inr vs = map metric_value (pad8 (tl (split_chr CHR ''/'' s))))
   \<and> cvss_decompose (Str []) = Inr (replicate 8 ''N/A'')
   \<and> (length (tl (split_chr CHR ''/'' s)) < 8 \<longrightarrow>
        (\<exists>vs. cvss_decompose (Str s)
               = Inr (vs @ replicate (8 - length (tl (split_chr CHR ''/'' s))) ''N/A'')
           \<and> map Inr vs = map metric_value (tl (split_chr CHR ''/'' s))))"
proof (intro conjI impI)
  let ?parts = "tl (split_chr CHR ''/'' s)"
  show "vector_parts (Str s) = Inr ?parts"
    by (rule vector_parts_Str)
  show "pad8 ?parts = take 8 ?parts @ replicate (8 - length ?parts) ''N/A''"
    by (rule pad8_take)
  have "map Inr (map metric_text (pad8 ?parts)) = map metric_value (pad8 ?parts)"
    by (simp add: metric_value_eq)
  then show "\<exists>vs. cvss_decompose (Str s) = Inr vs \<and> map Inr vs = map metric_value (pad8 ?parts)"
    using cvss_decompose_Str by blast
  show "cvss_decompose (Str []) = Inr (replicate 8 ''N/A'')"
    by (simp add: cvss_decompose_Str pad8_def metric_text_NA)
next
  let ?parts = "tl (split_chr CHR ''/'' s)"
  assume k: "length ?parts < 8"
  have "cvss_decompose (Str s)
          = Inr (map metric_text ?parts @ replicate (8 - length ?parts) ''N/A'')"
    using k by (simp add: cvss_decompose_Str pad8_short metric_text_NA)
  moreover have "map Inr (map metric_text ?parts) = map metric_value ?parts"
    by (simp add: metric_value_eq)
  ultimately show "\<exists>vs. cvss_decompose (Str s) = Inr (vs @ replicate (8 - length ?parts) ''N/A'')
                    \<and> map Inr vs = map metric_value ?parts"
    by (intro exI conjI)
qed

theorem cvss_decomposition_witness:
  "length (tl (split_chr CHR ''/'' ''CVSS:3.1/AV:N/AC:L/PR:N'')) < 8
   \<and> cvss_decompose (Str ''CVSS:3.1/AV:N/AC:L/PR:N'')
       = Inr [''N'', ''L'', ''N'', ''N/A'', ''N/A'', ''N/A'', ''N/A'', ''N/A'']"
proof -
  let ?s = "''CVSS:3.1/AV:N/AC:L/PR:N''"
  have p: "tl (split_chr CHR ''/'' ?s) = [''AV:N'', ''AC:L'', ''PR:N'']"
    by code_simp
  have h: "length (tl (split_chr CHR ''/'' ?s)) < 8"
    by (simp only: p) simp
  have m: "map metric_value [''AV:N'', ''AC:L'', ''PR:N''] = [Inr ''N'', Inr ''L'', Inr ''N'']"
    by code_simp
  from cvss_decomposition [of ?s] h obtain vs where
    vs: "cvss_decompose (Str ?s)
           = Inr (vs @ replicate (8 - length (tl (split_chr CHR ''/'' ?s))) ''N/A'')"
    and mv: "map Inr vs = map metric_value (tl (split_chr CHR ''/'' ?s))"
    by (elim conjE impE exE)
  from mv have "vs = [''N'', ''L'', ''N'']"
    unfolding p m by (simp add: map_eq_Cons_conv)
  with vs have "cvss_decompose (Str ?s)
       = Inr [''N'', ''L'', ''N'', ''N/A'', ''N/A'', ''N/A'', ''N/A'', ''N/A'']"
    unfolding p by (simp add: eval_nat_numeral)
  with h show ?thesis by (intro conjI)
qed

text \<open>
  C4, as the specification states it, fails on a token with two colons: the code takes
  the second piece of \<^verbatim>\<open>split(':')\<close>, which stops at the second colon.
\<close>

theorem metric_value_counterexample:
  "CHR '':'' \<in> set ''AV:N:X'' \<and> after_first_colon ''AV:N:X'' = ''N:X''
   \<and> metric_value ''AV:N:X'' = Inr ''N''
   \<and> metric_value ''AV:N:X'' \<noteq> Inr (after_first_colon ''AV:N:X'')"
  by (simp add: after_first_colon_def metric_value_def py_index_def)

text \<open>
  C4, amended. A token with a colon gives the text between its first colon and its
  second one (or its end), which is the entire text after the colon when the token has
  exactly one colon; a token without a colon is kept unchanged.
\<close>

theorem metric_value_spec:
  "metric_value tok
     = Inr (if CHR '':'' \<in> set tok
            then takeWhile (\<lambda>c. c \<noteq> CHR '':'') (after_first_colon tok) else tok)
   \<and> (count_list tok CHR '':'' = 1 \<longrightarrow> metric_value tok = Inr (after_first_colon tok))"
proof (intro conjI impI)
  show "metric_value tok
     = Inr (if CHR '':'' \<in> set tok
            then takeWhile (\<lambda>c. c \<noteq> CHR '':'') (after_first_colon tok) else tok)"
    by (simp add: metric_value_eq metric_text_def)
next
  assume one: "count_list tok CHR '':'' = 1"
  then have "CHR '':'' \<in> set tok"
    using count_list_0_iff [of tok "CHR '':''"] by simp
  moreover have "CHR '':'' \<notin> set (after_first_colon tok)"
    using one by (simp add: after_first_colon_def count_one_after)
  then have "takeWhile (\<lambda>c. c \<noteq> CHR '':'') (after_first_colon tok) = after_first_colon tok"
    by (auto simp: takeWhile_eq_all_conv)
  ultimately show "metric_value tok = Inr (after_first_colon tok)"
    by (simp add: metric_value_eq metric_text_def)
qed

theorem metric_value_spec_witness:
  "count_list ''AV:N'' CHR '':'' = 1 \<and> metric_value ''AV:N'' = Inr ''N''
   \<and> metric_value ''N/A'' = Inr ''N/A''"
proof -
  have one: "count_list ''AV:N'' CHR '':'' = 1" by simp
  have "metric_value ''AV:N'' = Inr (after_first_colon ''AV:N'')"
    using metric_value_spec [of "''AV:N''"] one by (elim conjE impE)
  moreover have "metric_value ''N/A'' = Inr ''N/A''"
    using metric_value_spec [of "''N/A''"] by simp
  ultimately show ?thesis using one by (simp add: after_first_colon_def)
qed

section \<open>The CVE of a finding\<close>

lemma cve_loop_find:
  "list_all is_dict (takeWhile (\<lambda>e. \<not> cve_typed e) refs) \<Longrightarrow>
   cve_loop refs = Inr (case List.find cve_typed refs of None \<Rightarrow> Str ''N/A'' | Some e \<Rightarrow> ref_id e)"
proof (induction refs)
  case Nil
  then show ?case by simp
next
  case (Cons r rs)
  show ?case
  proof (cases "cve_typed r")
    case True
    then obtain kvs where r: "r = Dict kvs"
      by (cases r) simp_all
    from True show ?thesis
      by (simp add: r split: option.splits)
  next
    case False
    with Cons.prems have d: "is_dict r"
      and rest: "list_all is_dict (takeWhile (\<lambda>e. \<not> cve_typed e) rs)"
      by simp_all
    from d obtain kvs where r: "r = Dict kvs"
      by (cases r) simp_all
    from Cons.IH [OF rest] False show ?thesis
      by (simp add: r split: option.splits)
  qed
qed

text \<open>
  C5, as the specification states it, fails on a finding whose \<open>refs\<close> element is empty,
  so that its value is \<^verbatim>\<open>None\<close>: \<^verbatim>\<open>nvt.get('refs', {}).get('ref', [])\<close> raises
  AttributeError instead of giving \<open>N/A\<close>. The same holds for a reference entry that is
  no object and comes before any entry of type \<open>cve\<close>, and for an \<open>nvt\<close> that is no object.
\<close>

theorem cve_extraction_counterexample:
  "extract_cve (Dict [(''cvss_base'', Str ''5.0''), (''refs'', PNone)]) = Inl AttributeError
   \<and> extract_cve (Dict [(''refs'', Dict [(''ref'',
        List [Str ''URL:example'',
              Dict [(''@type'', Str ''cve''), (''@id'', Str ''CVE-2023-0001'')]])])])
      = Inl AttributeError
   \<and> extract_cve PNone = Inl AttributeError"
  by (simp add: extract_cve_def ebind_def)

text \<open>
  C5, amended. For a finding whose \<open>nvt\<close> is an object, whose \<open>refs\<close> value is absent or
  an object and whose reference entries up to the first one of type \<open>cve\<close> are objects,
  the CVE is the id of the first entry of the reference list whose type is \<open>cve\<close>, and
  \<open>N/A\<close> when the list is absent, empty or has no such entry; a single reference object
  in place of a list counts as the list of that one object.
\<close>

theorem cve_extraction:
  assumes "py_get nvt ''refs'' (Dict []) = Inr r"
    and "py_get r ''ref'' (List []) = Inr refs"
    and "list_all is_dict (takeWhile (\<lambda>e. \<not> cve_typed e) (as_list refs))"
  shows "extract_cve nvt
           = Inr (case List.find cve_typed (as_list refs) of
                    None \<Rightarrow> Str ''N/A'' | Some e \<Rightarrow> ref_id e)
         \<and> (refs = List [] \<longrightarrow> extract_cve nvt = Inr (Str ''N/A''))
         \<and> (is_dict refs \<longrightarrow>
              extract_cve nvt = Inr (if cve_typed refs then ref_id refs else Str ''N/A''))"
proof -
  have main: "extract_cve nvt
           = Inr (case List.find cve_typed (as_list refs) of
                    None \<Rightarrow> Str ''N/A'' | Some e \<Rightarrow> ref_id e)"
    using assms by (simp add: extract_cve_def ebind_def cve_loop_find)
  have empty: "refs = List [] \<longrightarrow> extract_cve nvt = Inr (Str ''N/A'')"
    using main by simp
  have single: "is_dict refs \<longrightarrow>
              extract_cve nvt = Inr (if cve_typed refs then ref_id refs else Str ''N/A'')"
    using main by (cases refs) simp_all
  from main empty single show ?thesis by (intro conjI)
qed

theorem cve_extraction_witness:
  "extract_cve (Dict [(''refs'', Dict [(''ref'',
       List [Dict [(''@type'', Str ''bid''), (''@id'', Str ''123'')],
             Dict [(''@type'', Str ''cve''), (''@id'', Str ''CVE-2023-0001'')],
             Dict [(''@type'', Str ''cve''), (''@id'', Str ''CVE-2023-0002'')],
             Str ''URL:example''])])])
     = Inr (Str ''CVE-2023-0001'')
   \<and> extract_cve (Dict [(''refs'', Dict [(''ref'',
       Dict [(''@type'', Str ''cve''), (''@id'', Str ''CVE-2023-0001'')])])])
     = Inr (Str ''CVE-2023-0001'')
   \<and> extract_cve (Dict [(''refs'', Dict [(''ref'',
       List [Dict [(''@type'', Str ''bid''), (''@id'', Str ''123'')]])])])
     = Inr (Str ''N/A'')
   \<and> extract_cve (Dict []) = Inr (Str ''N/A'')"
proof -
  let ?l = "List [Dict [(''@type'', Str ''bid''), (''@id'', Str ''123'')],
             Dict [(''@type'', Str ''cve''), (''@id'', Str ''CVE-2023-0001'')],
             Dict [(''@type'', Str ''cve''), (''@id'', Str ''CVE-2023-0002'')],
             Str ''URL:example'']"
  let ?d = "Dict [(''@type'', Str ''cve''), (''@id'', Str ''CVE-2023-0001'')]"
  let ?n = "List [Dict [(''@type'', Str ''bid''), (''@id'', Str ''123'')]]"
  have a: "extract_cve (Dict [(''refs'', Dict [(''ref'', ?l)])]) = Inr (Str ''CVE-2023-0001'')"
    using cve_extraction [of "Dict [(''refs'', Dict [(''ref'', ?l)])]" "Dict [(''ref'', ?l)]" ?l]
    by simp
  have b: "extract_cve (Dict [(''refs'', Dict [(''ref'', ?d)])]) = Inr (Str ''CVE-2023-0001'')"
    using cve_extraction [of "Dict [(''refs'', Dict [(''ref'', ?d)])]" "Dict [(''ref'', ?d)]" ?d]
    by simp
  have n: "extract_cve (Dict [(''refs'', Dict [(''ref'', ?n)])]) = Inr (Str ''N/A'')"
    using cve_extraction [of "Dict [(''refs'', Dict [(''ref'', ?n)])]" "Dict [(''ref'', ?n)]" ?n]
    by simp
  have c: "extract_cve (Dict []) = Inr (Str ''N/A'')"
    using cve_extraction [of "Dict []" "Dict []" "List []"] by simp
  from a b n c show ?thesis by (intro conjI)
qed

section \<open>The findings path\<close>

lemma key_missing_getpath:
  "key_missing ks v \<Longrightarrow> \<exists>k. k \<in> set ks \<and> py_getpath v ks = Inl (KeyError k)"
proof (induction ks v rule: key_missing.induct)
  case (2 k ks kvs)
  show ?case
  proof (cases "map_of kvs k")
    case None
    then show ?thesis by simp
  next
    case (Some v')
    with "2.prems" have "key_missing ks v'" by simp
    with "2.IH" Some obtain k' where "k' \<in> set ks" "py_getpath v' ks = Inl (KeyError k')"
      by auto
    with Some show ?thesis by auto
  qed
qed simp_all

lemma getpath_Cons:
  "py_getpath v (k # ks) = Inr r \<Longrightarrow> \<exists>v'. py_getitem v k = Inr v' \<and> py_getpath v' ks = Inr r"
  by (simp split: sum.splits)

lemma getitem_get: "py_getitem v k = Inr v' \<Longrightarrow> py_get v k d = Inr v'"
  by (cases v) (simp_all split: option.splits)

text \<open>
  C6. When a key of the findings path is missing at some level of the report,
  \<^verbatim>\<open>process_report\<close> returns \<^verbatim>\<open>None\<close> and logs the key error; it raises nothing.
\<close>

theorem missing_findings_path:
  assumes "key_missing findings_path data"
  shows "\<exists>k. k \<in> set findings_path
           \<and> process_report data scan_name targets = (Inr PNone, [LogError (key_error_msg k)])"
proof -
  from key_missing_getpath [OF assms] obtain k where
    k: "k \<in> set findings_path" and g: "py_getpath data findings_path = Inl (KeyError k)"
    by (elim exE conjE)
  have "process_report data scan_name targets = (Inr PNone, [LogError (key_error_msg k)])"
    by (simp add: process_report_def g)
  with k show ?thesis by (intro exI conjI)
qed

theorem missing_findings_path_witness:
  "key_missing findings_path (Dict [(''get_reports_response'', Dict [(''report'', Dict [])])])
   \<and> process_report (Dict [(''get_reports_response'', Dict [(''report'', Dict [])])])
        (Str ''N/A'') (List [])
       = (Inr PNone, [LogError (key_error_msg ''report'')])"
proof -
  let ?d = "Dict [(''get_reports_response'', Dict [(''report'', Dict [])])]"
  have h: "key_missing findings_path ?d"
    by (simp add: findings_path_def)
  from missing_findings_path [OF h, of "Str ''N/A''" "List []"] obtain k where
    "process_report ?d (Str ''N/A'') (List []) = (Inr PNone, [LogError (key_error_msg k)])"
    by (elim exE conjE)
  moreover have "process_report ?d (Str ''N/A'') (List [])
       = (Inr PNone, [LogError (key_error_msg ''report'')])"
    by (simp add: process_report_def findings_path_def)
  ultimately show ?thesis using h by simp
qed

lemma findings_get_chain:
  assumes "py_getpath data findings_path = Inr v"
  shows "report_targets data
           = ebind (py_iter v) (\<lambda>results.
             ebind (host_texts results) (\<lambda>ts. Inr (List (remdups ts))))"
proof -
  from assms obtain v1 where 1: "py_getitem data ''get_reports_response'' = Inr v1"
    and p1: "py_getpath v1 [''report'', ''report'', ''results'', ''result''] = Inr v"
    unfolding findings_path_def by (blast dest: getpath_Cons)
  from p1 obtain v2 where 2: "py_getitem v1 ''report'' = Inr v2"
    and p2: "py_getpath v2 [''report'', ''results'', ''result''] = Inr v"
    by (blast dest: getpath_Cons)
  from p2 obtain v3 where 3: "py_getitem v2 ''report'' = Inr v3"
    and p3: "py_getpath v3 [''results'', ''result''] = Inr v"
    by (blast dest: getpath_Cons)
  from p3 obtain v4 where 4: "py_getitem v3 ''results'' = Inr v4"
    and p4: "py_getpath v4 [''result''] = Inr v"
    by (blast dest: getpath_Cons)
  from p4 obtain v5 where 5: "py_getitem v4 ''result'' = Inr v5"
    and p5: "py_getpath v5 [] = Inr v"
    by (blast dest: getpath_Cons)
  from p5 have v5: "v5 = v" by simp
  show ?thesis
    unfolding report_targets_def
    by (simp add: getitem_get [OF 1] getitem_get [OF 2] getitem_get [OF 3] getitem_get [OF 4]
        getitem_get [OF 5] v5 ebind_def)
qed

text \<open>
  C7. When the findings path holds one finding object, a non-empty dictionary, instead
  of a list, the loop runs over the keys of the dictionary, which are strings; the first
  subscript \<^verbatim>\<open>result['host']\<close> raises TypeError, in \<^verbatim>\<open>retrieve_results\<close> (line 179)
  as in \<^verbatim>\<open>process_report\<close>; the error is not a GvmError, so nothing catches it, and no
  record is produced. The reference list of a finding is wrapped in that case.
\<close>

theorem single_finding_not_wrapped:
  assumes "py_getpath data findings_path = Inr (Dict kvs)" and "kvs \<noteq> []"
  shows "py_iter (Dict kvs) = Inr (map (\<lambda>kv. Str (fst kv)) kvs)
         \<and> process_report data scan_name targets = (Inl TypeError, [])
         \<and> report_targets data = Inl TypeError
         \<and> except_GvmError (Inl TypeError) = Inl TypeError
         \<and> as_list (Dict kvs) = [Dict kvs]"
proof -
  from assms(2) obtain kv rest where kvs: "kvs = kv # rest"
    by (cases kvs) simp_all
  have first: "process_result (Str (fst kv)) = Inl TypeError"
    by (simp add: process_result_def ebind_def)
  have a: "process_report data scan_name targets = (Inl TypeError, [])"
    by (simp add: process_report_def assms(1) kvs ebind_def first)
  have b: "report_targets data = Inl TypeError"
    by (simp add: findings_get_chain [OF assms(1)] kvs ebind_def)
  from a b show ?thesis by simp
qed

theorem single_finding_not_wrapped_witness:
  "process_report
     (Dict [(''get_reports_response'', Dict [(''report'', Dict [(''report'',
        Dict [(''results'', Dict [(''result'',
          Dict [(''@id'', Str ''r1''), (''host'', Dict [(''#text'', Str ''10.0.0.1'')])])])])])])])
     (Str ''scan'') (List [Str ''10.0.0.1''])
   = (Inl TypeError, [])"
proof -
  let ?f = "[(''@id'', Str ''r1''), (''host'', Dict [(''#text'', Str ''10.0.0.1'')])]"
  let ?d = "Dict [(''get_reports_response'', Dict [(''report'', Dict [(''report'',
        Dict [(''results'', Dict [(''result'', Dict ?f)])])])])]"
  have p: "py_getpath ?d findings_path = Inr (Dict ?f)"
    by (simp add: findings_path_def)
  have n: "?f \<noteq> []" by simp
  from single_finding_not_wrapped [OF p n, of "Str ''scan''" "List [Str ''10.0.0.1'']"]
  show ?thesis by (elim conjE)
qed

section \<open>The session\<close>


lemma except_GvmError_Inr:
  "except_GvmError r = Inr v \<Longrightarrow>
     r = Inr v \<or> (\<exists>m. r = Inl (GvmError m) \<and> v = Dict [(''error'', Str m)])"
  by (cases r rule: except_GvmError.cases) auto

text \<open>
  C10. \<^verbatim>\<open>trigger_scan\<close> and \<^verbatim>\<open>retrieve_results\<close> end disconnected whatever happens:
  a result, a \<^verbatim>\<open>GvmError\<close> turned into an error object, or an exception that leaves
  the function.
\<close>

theorem always_disconnected:
  "\<not> connected (snd (trigger_scan g scan_name targets port_list_id w))
   \<and> \<not> connected (snd (retrieve_results g parse scan_id w))"
  by (simp add: trigger_scan_def retrieve_results_def disconnect_def split: prod.splits)

lemma process_report_Inr:
  "process_report d n t = (Inr v, l) \<Longrightarrow> is_report_object v \<or> v = PNone"
  by (auto simp: process_report_def ebind_def split: sum.splits pyerr.splits prod.splits)

lemma report_steps_Inr:
  "fst (report_steps g parse sid w) = Inr v \<Longrightarrow> is_report_object v \<or> v = PNone"
  unfolding report_steps_def sbind_def Let_def
  by (auto split: sum.splits prod.splits dest: process_report_Inr)

lemma with_gmp_Inr:
  "fst (with_gmp g body w) = Inr v \<Longrightarrow> \<exists>w1. fst (body w1) = Inr v"
  unfolding with_gmp_def
  by (auto split: sum.splits prod.splits) (metis fst_conv)

lemma retrieve_results_fst:
  "fst (retrieve_results g parse sid w)
     = except_GvmError (fst (with_gmp g (report_steps g parse sid) w))"
  by (simp add: retrieve_results_def split: prod.splits)


text \<open>
  C9, as the specification states it, fails on a report without the findings path: the
  status is 200, but the body is \<^verbatim>\<open>null\<close>, neither a report object nor an error object.
\<close>

theorem get_results_counterexample:
  "fst (get_results svc (\<lambda>e. report_without_results) ''r1'' (start svc1)) = Inr (PNone, 200)
   \<and> \<not> is_report_object PNone \<and> \<not> is_error_object PNone"
  by (simp add: get_results_def retrieve_results_def with_gmp_def report_steps_def sbind_def
      call_def svc_def svc_get_report_def svc1_def svc0_def start_def report_without_results_def
      report_scan_name_def report_targets_def process_report_def findings_path_def ebind_def
      disconnect_def)

text \<open>
  C9, amended. Whenever \<^verbatim>\<open>retrieve_results\<close> returns, the response has status 200 and
  its body is the report object, an error object, or \<^verbatim>\<open>null\<close> (the findings path is
  absent from the report).
\<close>

theorem get_results_status:
  assumes "fst (retrieve_results g parse scan_id w) = Inr v"
  shows "get_results g parse scan_id w = (Inr (v, 200), snd (retrieve_results g parse scan_id w))
         \<and> (is_report_object v \<or> is_error_object v \<or> v = PNone)"
proof -
  have a: "get_results g parse scan_id w
             = (Inr (v, 200), snd (retrieve_results g parse scan_id w))"
    using assms by (cases "retrieve_results g parse scan_id w") (simp add: get_results_def)
  from assms have "except_GvmError (fst (with_gmp g (report_steps g parse scan_id) w)) = Inr v"
    by (simp only: retrieve_results_fst)
  then consider "fst (with_gmp g (report_steps g parse scan_id) w) = Inr v"
    | m where "v = Dict [(''error'', Str m)]"
    using except_GvmError_Inr by blast
  then have b: "is_report_object v \<or> is_error_object v \<or> v = PNone"
  proof cases
    case 1
    from with_gmp_Inr [OF 1] obtain w1 where "fst (report_steps g parse scan_id w1) = Inr v" ..
    from report_steps_Inr [OF this] show ?thesis by (elim disjE) simp_all
  next
    case 2
    then show ?thesis by simp
  qed
  from a b show ?thesis by (intro conjI)
qed

theorem get_results_status_witness:
  "fst (retrieve_results svc (\<lambda>e. report_without_results) ''r2'' (start svc1))
     = Inr (Dict [(''error'', Str ''Failed to find report'')])
   \<and> fst (get_results svc (\<lambda>e. report_without_results) ''r2'' (start svc1))
     = Inr (Dict [(''error'', Str ''Failed to find report'')], 200)"
proof -
  have h: "fst (retrieve_results svc (\<lambda>e. report_without_results) ''r2'' (start svc1))
      = Inr (Dict [(''error'', Str ''Failed to find report'')])"
    by (simp add: retrieve_results_def with_gmp_def report_steps_def sbind_def
      call_def svc_def svc_get_report_def svc1_def svc0_def start_def)
  from get_results_status [OF h] h show ?thesis by simp
qed




section \<open>Name resolution\<close>

lemma name_loop_find:
  "list_all has_name_child cs \<Longrightarrow>
   name_loop expected msg cs
     = (case List.find (has_name expected) cs of
          None \<Rightarrow> Inl (ValueError msg) | Some c \<Rightarrow> Inr (get_attr ''id'' c))"
  by (induction cs) (auto simp: has_name_def has_name_child_def split: option.splits)

section \<open>The program against the service\<close>

lemma svc_simps:
  "gmp_connect svc = (\<lambda>s. (Inr (), s))"
  "gmp_authenticate svc = (\<lambda>u p s. (Inr (ok_resp ''authenticate_response'' [] []), s))"
  "gmp_get_targets svc = svc_get_targets"
  "gmp_delete_target svc = svc_delete_target"
  "gmp_create_target svc = svc_create_target"
  "gmp_get_configs svc = svc_get_configs"
  "gmp_get_scanners svc = svc_get_scanners"
  "gmp_create_task svc = svc_create_task"
  "gmp_start_task svc = svc_start_task"
  "gmp_get_report svc = svc_get_report"
  by (simp_all add: svc_def)

lemma named_elem_simps:
  "find_child ''name'' (named_elem kind i n) = Some (Elem ''name'' [] (Some n) [])"
  "get_attr ''id'' (named_elem kind i n) = Some i"
  "el_tag (named_elem kind i n) = kind"
  by (simp_all add: named_elem_def find_child_def get_attr_def)

lemma findall_named:
  "findall kind (ok_resp r a (map (\<lambda>c. named_elem kind (f c) (h c)) cs))
     = map (\<lambda>c. named_elem kind (f c) (h c)) cs"
  by (induction cs) (simp_all add: findall_def ok_resp_def named_elem_simps)

lemma findall_targets:
  "findall ''target'' (ok_resp r a (map target_elem ts)) = map target_elem ts"
  by (induction ts) (simp_all add: findall_def ok_resp_def target_elem_def named_elem_simps)

lemma svc_name_loop:
  "name_loop expected msg (map (\<lambda>c. named_elem kind (fst c) (snd c)) cs)
     = (case List.find (\<lambda>c. snd c = expected) cs of
          None \<Rightarrow> Inl (ValueError msg) | Some c \<Rightarrow> Inr (Some (fst c)))"
  by (induction cs) (simp_all add: named_elem_simps)

lemma svc_config:
  "get_default_config_id svc w
     = (case List.find (\<lambda>c. snd c = ''Full and fast'') (sv_configs (remote w)) of
          None \<Rightarrow> Inl (ValueError config_not_found) | Some c \<Rightarrow> Inr (Some (fst c)), w)"
  by (simp add: get_default_config_id_def sbind_def call_def svc_simps svc_get_configs_def
      findall_named svc_name_loop)

lemma svc_scanner:
  "get_default_scanner_id svc w
     = (case List.find (\<lambda>c. snd c = ''OpenVAS Default'') (sv_scanners (remote w)) of
          None \<Rightarrow> Inl (ValueError scanner_not_found) | Some c \<Rightarrow> Inr (Some (fst c)), w)"
  by (simp add: get_default_scanner_id_def sbind_def call_def svc_simps svc_get_scanners_def
      findall_named svc_name_loop)

lemma svc_delete_loop:
  assumes "set ts \<subseteq> set (sv_targets (remote w))"
  shows "delete_loop svc name (map target_elem ts) w
     = (case List.find (\<lambda>t. tg_name t = name) ts of
          None \<Rightarrow> (Inr False, w)
        | Some t \<Rightarrow>
            (Inr True,
             add_log (LogDebug (''Deleted existing target: '' @ name @ '' with ID: '' @ tg_id t))
               (w\<lparr>remote := (remote w)\<lparr>sv_targets :=
                     filter (\<lambda>x. tg_id x \<noteq> tg_id t) (sv_targets (remote w))\<rparr>\<rparr>)))"
  using assms
proof (induction ts)
  case Nil
  then show ?case by simp
next
  case (Cons t ts)
  show ?case
  proof (cases "tg_name t = name")
    case True
    from Cons.prems have "tg_id t \<in> tg_id ` set (sv_targets (remote w))" by auto
    with True show ?thesis
      by (simp add: target_elem_def named_elem_simps call_def svc_simps svc_delete_target_def
          opt_str_def)
  next
    case False
    from Cons.prems have "set ts \<subseteq> set (sv_targets (remote w))" by simp
    from Cons.IH [OF this] False show ?thesis
      by (simp add: target_elem_def named_elem_simps)
  qed
qed

lemma svc_delete:
  "delete_target_if_exists svc name w
     = (case List.find (\<lambda>t. tg_name t = name) (sv_targets (remote w)) of
          None \<Rightarrow> (Inr False, w)
        | Some t \<Rightarrow>
            (Inr True,
             add_log (LogDebug (''Deleted existing target: '' @ name @ '' with ID: '' @ tg_id t))
               (w\<lparr>remote := del_named name (remote w)\<rparr>)))"
proof -
  have "findall ''target'' (ok_resp ''get_targets_response'' [] (map target_elem (sv_targets (remote w))))
          = map target_elem (sv_targets (remote w))"
    by (rule findall_targets)
  then show ?thesis
    by (simp add: delete_target_if_exists_def sbind_def call_def svc_simps svc_get_targets_def
        svc_delete_loop del_named_def split: option.splits)
qed





lemma svc_trigger_no_config:
  assumes "List.find (\<lambda>c. snd c = ''Full and fast'') (sv_configs s) = None"
  shows "fst (trigger_scan svc name hosts pl (start s)) = Inl (ValueError config_not_found)
    \<and> sv_tasks (remote (snd (trigger_scan svc name hosts pl (start s)))) = sv_tasks s"
proof (cases "List.find (\<lambda>t. tg_name t = name) (sv_targets s)")
  case None
  then show ?thesis
    using assms
    by (simp add: trigger_scan_def with_gmp_def scan_steps_def sbind_def call_def svc_simps
        svc_delete svc_config svc_create_target_def start_def disconnect_def)
next
  case (Some t)
  then show ?thesis
    using assms
    by (simp add: trigger_scan_def with_gmp_def scan_steps_def sbind_def call_def svc_simps
        svc_delete svc_config svc_create_target_def start_def disconnect_def del_named_def
        add_log_def)
qed

lemma svc_trigger_no_scanner:
  assumes "List.find (\<lambda>c. snd c = ''Full and fast'') (sv_configs s) = Some cfg"
    and "List.find (\<lambda>c. snd c = ''OpenVAS Default'') (sv_scanners s) = None"
  shows "fst (trigger_scan svc name hosts pl (start s)) = Inl (ValueError scanner_not_found)
    \<and> sv_tasks (remote (snd (trigger_scan svc name hosts pl (start s)))) = sv_tasks s"
proof (cases "List.find (\<lambda>t. tg_name t = name) (sv_targets s)")
  case None
  then show ?thesis
    using assms
    by (simp add: trigger_scan_def with_gmp_def scan_steps_def sbind_def call_def svc_simps
        svc_delete svc_config svc_scanner svc_create_target_def start_def disconnect_def)
next
  case (Some t)
  then show ?thesis
    using assms
    by (simp add: trigger_scan_def with_gmp_def scan_steps_def sbind_def call_def svc_simps
        svc_delete svc_config svc_scanner svc_create_target_def start_def disconnect_def
        del_named_def add_log_def)
qed

lemma find_snd_None: "x \<notin> snd ` set cs \<Longrightarrow> List.find (\<lambda>c. snd c = x) cs = None"
  by (induction cs) auto

lemma find_snd_Some: "x \<in> snd ` set cs \<Longrightarrow> \<exists>c. List.find (\<lambda>c. snd c = x) cs = Some c"
  by (induction cs) auto

text \<open>
  C8. Name resolution lists the entities and returns the id of the first one whose name
  is exactly the expected one; any other name, a longer one or one in another case, is
  no match. When none matches it raises the not-found ValueError, and the orchestration
  ends with that error: no task is created, no other name is tried.
\<close>

theorem name_resolution:
  "(gmp_get_configs g (remote w) = (Inr resp, r')
      \<and> list_all has_name_child (findall ''config'' resp) \<longrightarrow>
    get_default_config_id g w
      = (case List.find (has_name ''Full and fast'') (findall ''config'' resp) of
           None \<Rightarrow> Inl (ValueError config_not_found)
         | Some c \<Rightarrow> Inr (get_attr ''id'' c), w\<lparr>remote := r'\<rparr>))
   \<and> (gmp_get_scanners g (remote w) = (Inr resp, r')
      \<and> list_all has_name_child (findall ''scanner'' resp) \<longrightarrow>
    get_default_scanner_id g w
      = (case List.find (has_name ''OpenVAS Default'') (findall ''scanner'' resp) of
           None \<Rightarrow> Inl (ValueError scanner_not_found)
         | Some c \<Rightarrow> Inr (get_attr ''id'' c), w\<lparr>remote := r'\<rparr>))
   \<and> (''Full and fast'' \<notin> snd ` set (sv_configs s) \<longrightarrow>
        fst (trigger_scan svc name hosts pl (start s)) = Inl (ValueError config_not_found)
        \<and> sv_tasks (remote (snd (trigger_scan svc name hosts pl (start s)))) = sv_tasks s)
   \<and> (''Full and fast'' \<in> snd ` set (sv_configs s)
      \<and> ''OpenVAS Default'' \<notin> snd ` set (sv_scanners s) \<longrightarrow>
        fst (trigger_scan svc name hosts pl (start s)) = Inl (ValueError scanner_not_found)
        \<and> sv_tasks (remote (snd (trigger_scan svc name hosts pl (start s)))) = sv_tasks s)"
proof (intro conjI impI; (elim conjE)?)
  assume "gmp_get_configs g (remote w) = (Inr resp, r')"
    and "list_all has_name_child (findall ''config'' resp)"
  then show "get_default_config_id g w
      = (case List.find (has_name ''Full and fast'') (findall ''config'' resp) of
           None \<Rightarrow> Inl (ValueError config_not_found)
         | Some c \<Rightarrow> Inr (get_attr ''id'' c), w\<lparr>remote := r'\<rparr>)"
    by (simp add: get_default_config_id_def sbind_def call_def name_loop_find)
next
  assume "gmp_get_scanners g (remote w) = (Inr resp, r')"
    and "list_all has_name_child (findall ''scanner'' resp)"
  then show "get_default_scanner_id g w
      = (case List.find (has_name ''OpenVAS Default'') (findall ''scanner'' resp) of
           None \<Rightarrow> Inl (ValueError scanner_not_found)
         | Some c \<Rightarrow> Inr (get_attr ''id'' c), w\<lparr>remote := r'\<rparr>)"
    by (simp add: get_default_scanner_id_def sbind_def call_def name_loop_find)
next
  assume "''Full and fast'' \<notin> snd ` set (sv_configs s)"
  then have n: "List.find (\<lambda>c. snd c = ''Full and fast'') (sv_configs s) = None"
    by (rule find_snd_None)
  from svc_trigger_no_config [OF n]
  show "fst (trigger_scan svc name hosts pl (start s)) = Inl (ValueError config_not_found)"
    and "sv_tasks (remote (snd (trigger_scan svc name hosts pl (start s)))) = sv_tasks s"
    by simp_all
next
  assume a: "''Full and fast'' \<in> snd ` set (sv_configs s)"
    and b: "''OpenVAS Default'' \<notin> snd ` set (sv_scanners s)"
  from find_snd_Some [OF a] obtain cfg where
    c: "List.find (\<lambda>c. snd c = ''Full and fast'') (sv_configs s) = Some cfg" ..
  from b have n: "List.find (\<lambda>c. snd c = ''OpenVAS Default'') (sv_scanners s) = None"
    by (rule find_snd_None)
  from svc_trigger_no_scanner [OF c n]
  show "fst (trigger_scan svc name hosts pl (start s)) = Inl (ValueError scanner_not_found)"
    and "sv_tasks (remote (snd (trigger_scan svc name hosts pl (start s)))) = sv_tasks s"
    by simp_all
qed

theorem name_resolution_witness:
  "get_default_config_id svc
     (start (svc0\<lparr>sv_configs := [(''c1'', ''Full and fast ultimate''), (''c2'', ''full and fast''),
                                  (''c3'', ''Full and fast''), (''c4'', ''Full and fast'')]\<rparr>))
     = (Inr (Some ''c3''),
        start (svc0\<lparr>sv_configs := [(''c1'', ''Full and fast ultimate''), (''c2'', ''full and fast''),
                                  (''c3'', ''Full and fast''), (''c4'', ''Full and fast'')]\<rparr>))
   \<and> get_default_scanner_id svc (start svc0) = (Inr (Some ''s1''), start svc0)
   \<and> fst (trigger_scan svc ''scan'' (Str ''10.0.0.1'') ''pl''
        (start (svc0\<lparr>sv_configs := [(''c1'', ''Full and fast ultimate''),
                                     (''c2'', ''full and fast'')]\<rparr>)))
     = Inl (ValueError config_not_found)
   \<and> fst (trigger_scan svc ''scan'' (Str ''10.0.0.1'') ''pl''
        (start (svc0\<lparr>sv_scanners := [(''s2'', ''OpenVAS'')]\<rparr>)))
     = Inl (ValueError scanner_not_found)"
proof -
  let ?cs = "[(''c1'', ''Full and fast ultimate''), (''c2'', ''full and fast''),
              (''c3'', ''Full and fast''), (''c4'', ''Full and fast'')]"
  let ?s1 = "svc0\<lparr>sv_configs := ?cs\<rparr>"
  let ?r1 = "ok_resp ''get_configs_response'' [] (map (\<lambda>c. named_elem ''config'' (fst c) (snd c)) ?cs)"
  let ?r2 = "ok_resp ''get_scanners_response'' []
               (map (\<lambda>c. named_elem ''scanner'' (fst c) (snd c)) [(''s1'', ''OpenVAS Default'')])"
  let ?s3 = "svc0\<lparr>sv_configs := [(''c1'', ''Full and fast ultimate''), (''c2'', ''full and fast'')]\<rparr>"
  let ?s4 = "svc0\<lparr>sv_scanners := [(''s2'', ''OpenVAS'')]\<rparr>"
  have a: "get_default_config_id svc (start ?s1) = (Inr (Some ''c3''), start ?s1)"
    using name_resolution [of svc "start ?s1" ?r1 ?s1, THEN conjunct1]
    by (simp add: svc_def svc_get_configs_def start_def svc0_def findall_def ok_resp_def
        named_elem_def has_name_child_def has_name_def find_child_def get_attr_def)
  have b: "get_default_scanner_id svc (start svc0) = (Inr (Some ''s1''), start svc0)"
    using name_resolution [of svc "start svc0" ?r2 svc0, THEN conjunct2, THEN conjunct1]
    by (simp add: svc_def svc_get_scanners_def start_def svc0_def findall_def ok_resp_def
        named_elem_def has_name_child_def has_name_def find_child_def get_attr_def)
  have c: "fst (trigger_scan svc ''scan'' (Str ''10.0.0.1'') ''pl'' (start ?s3))
             = Inl (ValueError config_not_found)"
    using name_resolution [of svc "start svc0" ?r2 svc0 ?s3 "''scan''" "Str ''10.0.0.1''" "''pl''",
        THEN conjunct2, THEN conjunct2, THEN conjunct1]
    by (simp add: svc0_def)
  have d: "fst (trigger_scan svc ''scan'' (Str ''10.0.0.1'') ''pl'' (start ?s4))
             = Inl (ValueError scanner_not_found)"
    using name_resolution [of svc "start svc0" ?r2 svc0 ?s4 "''scan''" "Str ''10.0.0.1''" "''pl''",
        THEN conjunct2, THEN conjunct2, THEN conjunct2]
    by (simp add: svc0_def)
  from a b c d show ?thesis by (intro conjI)
qed

section \<open>Two requests with one name\<close>















end
